theory Spec2Isabelle
  imports Complex_Main "HOL-Library.Word"
begin

section \<open>Doubles\<close>

text \<open>
  A C++ \<open>double\<close> is a finite value, an infinity or a NaN. Finite values are taken as
  exact reals: rounding, overflow of a finite result to an infinity and the sign of zero
  are not represented (a zero divisor is read as \<open>+0\<close>). The special values follow
  IEEE 754, which is what decides the comparisons and the divisions of the fitter.
\<close>

datatype double = Fin real | PInf | MInf | NaN

fun dneg :: "double \<Rightarrow> double" where
  "dneg (Fin x) = Fin (- x)"
| "dneg PInf = MInf"
| "dneg MInf = PInf"
| "dneg NaN = NaN"

fun dadd :: "double \<Rightarrow> double \<Rightarrow> double" where
  "dadd (Fin x) (Fin y) = Fin (x + y)"
| "dadd NaN b = NaN"
| "dadd a NaN = NaN"
| "dadd PInf MInf = NaN"
| "dadd MInf PInf = NaN"
| "dadd PInf b = PInf"
| "dadd a PInf = PInf"
| "dadd MInf b = MInf"
| "dadd a MInf = MInf"

definition dsub :: "double \<Rightarrow> double \<Rightarrow> double" where
  "dsub a b = dadd a (dneg b)"

text \<open>The sign of a non-NaN double: \<open>1\<close>, \<open>0\<close> or \<open>-1\<close>.\<close>

fun dsgn :: "double \<Rightarrow> int" where
  "dsgn (Fin x) = (if x > 0 then 1 else if x < 0 then - 1 else 0)"
| "dsgn PInf = 1"
| "dsgn MInf = - 1"
| "dsgn NaN = 0"

definition signed_inf :: "int \<Rightarrow> double" where
  "signed_inf s = (if s > 0 then PInf else if s < 0 then MInf else NaN)"

fun dmul :: "double \<Rightarrow> double \<Rightarrow> double" where
  "dmul (Fin x) (Fin y) = Fin (x * y)"
| "dmul NaN b = NaN"
| "dmul a NaN = NaN"
| "dmul a b = signed_inf (dsgn a * dsgn b)"

fun ddiv :: "double \<Rightarrow> double \<Rightarrow> double" where
  "ddiv (Fin x) (Fin y) =
     (if y \<noteq> 0 then Fin (x / y) else signed_inf (dsgn (Fin x)))"
| "ddiv NaN b = NaN"
| "ddiv a NaN = NaN"
| "ddiv (Fin x) b = Fin 0"
| "ddiv a (Fin y) = signed_inf (dsgn a * (if y < 0 then - 1 else 1))"
| "ddiv a b = NaN"

fun dless :: "double \<Rightarrow> double \<Rightarrow> bool" where
  "dless (Fin x) (Fin y) = (x < y)"
| "dless NaN b = False"
| "dless a NaN = False"
| "dless a MInf = False"
| "dless PInf b = False"
| "dless a b = True"

definition dgreater :: "double \<Rightarrow> double \<Rightarrow> bool" where
  "dgreater a b = dless b a"

fun dle :: "double \<Rightarrow> double \<Rightarrow> bool" where
  "dle (Fin x) (Fin y) = (x \<le> y)"
| "dle NaN b = False"
| "dle a NaN = False"
| "dle MInf b = True"
| "dle a PInf = True"
| "dle a b = False"

text \<open>\<open>log\<close> of \<open>math.h\<close>.\<close>

fun dlog :: "double \<Rightarrow> double" where
  "dlog (Fin x) = (if x > 0 then Fin (ln x) else if x = 0 then MInf else NaN)"
| "dlog PInf = PInf"
| "dlog MInf = NaN"
| "dlog NaN = NaN"

text \<open>\<open>double(n)\<close> for an \<open>int\<close> \<open>n\<close>.\<close>

definition double_of_int :: "int \<Rightarrow> double" where
  "double_of_int n = Fin (of_int n)"

text \<open>
  \<open>int(x)\<close> for a \<open>double\<close> \<open>x\<close>: truncation towards zero. Outside the range of a
  32-bit \<open>int\<close> the conversion is undefined in C++; the model returns what the
  conversion instruction of x86-64 returns there, \<open>INT_MIN\<close>.
\<close>

definition trunc_real :: "real \<Rightarrow> int" where
  "trunc_real x = (if x \<ge> 0 then \<lfloor>x\<rfloor> else \<lceil>x\<rceil>)"

definition int_of_double :: "real \<Rightarrow> int" where
  "int_of_double x =
     (let t = trunc_real x
      in if - (2 ^ 31) \<le> t \<and> t < 2 ^ 31 then t else - (2 ^ 31))"

text \<open>\<open>std::numeric_limits<double>::epsilon()\<close>.\<close>

definition epsilon :: real where
  "epsilon = 1 / 2 ^ 52"


section \<open>Histograms and functions of ROOT\<close>

text \<open>
  A \<open>TH1D\<close> with \<open>nbins\<close> bins: the \<open>nbins + 1\<close> bin edges of its x axis and
  the \<open>nbins + 2\<close> bin contents, where content \<open>0\<close> is the underflow bin, contents
  \<open>1 .. nbins\<close> are the bins of the axis and content \<open>nbins + 1\<close> is the overflow
  bin. Edges and contents are finite doubles. A histogram of ROOT has at least one bin.
\<close>

record TH1D =
  edges :: "real list"
  contents :: "real list"

definition GetNbinsX :: "TH1D \<Rightarrow> nat" where
  "GetNbinsX h = length (edges h) - 1"

definition GetBinLowEdge :: "TH1D \<Rightarrow> nat \<Rightarrow> real" where
  "GetBinLowEdge h i = edges h ! (i - 1)"

definition GetBinUpEdge :: "TH1D \<Rightarrow> nat \<Rightarrow> real" where
  "GetBinUpEdge h i = edges h ! i"

definition GetBinContent :: "TH1D \<Rightarrow> nat \<Rightarrow> real" where
  "GetBinContent h i = contents h ! i"

definition GetXmin :: "TH1D \<Rightarrow> real" where
  "GetXmin h = edges h ! 0"

definition GetXmax :: "TH1D \<Rightarrow> real" where
  "GetXmax h = edges h ! GetNbinsX h"

text \<open>
  A \<open>TF1\<close>: the function of the parameters and of \<open>x\<close>, the value that the numerical
  integration of ROOT returns for it between two bounds, and the current parameters,
  which \<open>SetParameters\<close> replaces and \<open>Eval\<close> and \<open>Integral\<close> read.
\<close>

record TF1 =
  formula :: "real list \<Rightarrow> real \<Rightarrow> double"
  integrator :: "real list \<Rightarrow> real \<Rightarrow> real \<Rightarrow> double"
  parameters :: "real list"

definition Eval :: "TF1 \<Rightarrow> real \<Rightarrow> double" where
  "Eval f x = formula f (parameters f) x"

definition Integral :: "TF1 \<Rightarrow> real \<Rightarrow> real \<Rightarrow> double" where
  "Integral f a b = integrator f (parameters f) a b"

definition SetParameters :: "TF1 \<Rightarrow> real list \<Rightarrow> TF1" where
  "SetParameters f ps = f\<lparr>parameters := ps\<rparr>"

section \<open>Collaborators outside the file\<close>

text \<open>
  \<open>BCMath\<close>, \<open>BCH1D\<close> and the statistics of a \<open>TH1D\<close> are not part of
  \<open>BCEfficiencyFitter.cxx\<close>. The fitter is modelled for any such functions: they are
  the fields of one record, which every operation that calls them takes as an argument.
\<close>

record BCH1DInterval =
  xmin :: double
  xmax :: double

record Collaborators =
  LogApproxBinomial :: "int \<Rightarrow> int \<Rightarrow> double \<Rightarrow> double"
  ApproxBinomial :: "int \<Rightarrow> int \<Rightarrow> double \<Rightarrow> double"
  CorrectPValue :: "double \<Rightarrow> nat \<Rightarrow> nat \<Rightarrow> double"
  GetSmallestIntervals :: "double list \<Rightarrow> double \<Rightarrow> BCH1DInterval list"
  GetMean :: "double list \<Rightarrow> double"
  GetRMS :: "double list \<Rightarrow> double"
  GetQuantiles :: "double list \<Rightarrow> double list \<Rightarrow> double list"

section \<open>The fitter\<close>

datatype DataPointType =
  kDataPointRMS | kDataPointSmallestInterval | kDataPointCentralInterval
  | kDataPointInvalid

datatype error = UndefinedBehaviour

text \<open>
  The data set made by \<open>SetHistograms\<close>: its data points, each a vector of values,
  and the bounds set for its columns.
\<close>

record BCDataSet =
  points :: "real list list"
  bounds :: "(nat \<times> real \<times> real) list"

definition AddDataPoint :: "real list \<Rightarrow> BCDataSet \<Rightarrow> BCDataSet" where
  "AddDataPoint p d = d\<lparr>points := points d @ [p]\<rparr>"

definition SetBounds :: "nat \<Rightarrow> real \<Rightarrow> real \<Rightarrow> BCDataSet \<Rightarrow> BCDataSet" where
  "SetBounds i lo hi d = d\<lparr>bounds := bounds d @ [(i, lo, hi)]\<rparr>"

text \<open>
  The members the operations below read or write. \<open>fFitFunction\<close> is the vector of
  function pointers of the base class, one per chain, a null pointer being \<open>None\<close>;
  \<open>fHistogramBinomial\<close> holds the contents of the 1000 bins of the posterior
  histogram on \<open>[0, 1]\<close>; \<open>fRandom\<close> is the number of values already drawn from the
  random generator; \<open>fNParameters\<close> is what \<open>GetNParameters()\<close> returns.
\<close>

record BCEfficiencyFitter =
  fHistogram1 :: "TH1D option"
  fHistogram2 :: "TH1D option"
  fHistogramBinomial :: "double list option"
  fDataPointType :: DataPointType
  fFlagIntegration :: bool
  fFitFunction :: "TF1 option list"
  fMCMCCurrentChain :: int
  fDataSet :: "BCDataSet option"
  fFitFunctionIndices :: "nat \<times> nat"
  fNParameters :: nat
  fRandom :: nat
  fPValue :: double

text \<open>
  The constructor \<open>BCEfficiencyFitter(name)\<close>, applied to the object as its base
  class has initialised it.
\<close>

definition BCEfficiencyFitter_ctor :: "BCEfficiencyFitter \<Rightarrow> BCEfficiencyFitter" where
  "BCEfficiencyFitter_ctor base =
     base\<lparr>fHistogram1 := None, fHistogram2 := None, fHistogramBinomial := None,
          fDataPointType := kDataPointSmallestInterval, fFlagIntegration := False\<rparr>"

subsection \<open>SetHistograms\<close>

text \<open>
  The loop over the bins \<open>1 .. nbins\<close> that compares low edges and contents; its
  result is the message of the first check that fails.
\<close>

fun check_bins :: "TH1D \<Rightarrow> TH1D \<Rightarrow> nat list \<Rightarrow> string option" where
  "check_bins hist1 hist2 [] = None"
| "check_bins hist1 hist2 (i # is) =
     (if \<bar>GetBinLowEdge hist1 i - GetBinLowEdge hist2 i\<bar> > epsilon
      then Some ''BCEfficiencyFitter::SetHistograms : Histogram 1 and 2 don't have same bins.''
      else if GetBinContent hist1 i < GetBinContent hist2 i
      then Some ''BCEfficiencyFitter::SetHistograms : Histogram 1 has fewer entries than histogram 2.''
      else check_bins hist1 hist2 is)"

definition new_data_set :: "TH1D \<Rightarrow> BCDataSet" where
  "new_data_set hist1 =
     SetBounds 1 0 1
       (SetBounds 0 (GetXmin hist1) (GetXmax hist1)
          (fold (\<lambda>i. AddDataPoint [0, 0]) [0..<GetNbinsX hist1]
             \<lparr>points = [], bounds = []\<rparr>))"

text \<open>
  The result is the returned flag, the fitter afterwards and the messages given to
  \<open>BCLog::OutError\<close>.
\<close>

definition SetHistograms ::
  "TH1D option \<Rightarrow> TH1D option \<Rightarrow> BCEfficiencyFitter \<Rightarrow> bool \<times> BCEfficiencyFitter \<times> string list"
where
  "SetHistograms h1 h2 s =
     (case (h1, h2) of
        (Some hist1, Some hist2) \<Rightarrow>
          if GetNbinsX hist1 \<noteq> GetNbinsX hist2
          then (False, s, [''BCEfficiencyFitter::SetHistograms : Histograms do not have the same number of bins.''])
          else (case check_bins hist1 hist2 [1..<GetNbinsX hist1 + 1] of
                  Some msg \<Rightarrow> (False, s, [msg])
                | None \<Rightarrow>
                    if \<bar>GetXmax hist1 - GetXmax hist2\<bar> > epsilon
                    then (False, s, [''BCEfficiencyFitter::SetHistograms : Histogram 1 and 2 don't have same bins.''])
                    else (True,
                          s\<lparr>fHistogram1 := Some hist1, fHistogram2 := Some hist2,
                            fDataSet := Some (new_data_set hist1),
                            fFitFunctionIndices := (0, 1)\<rparr>,
                          []))
      | _ \<Rightarrow> (False, s, [''BCEfficiencyFitter::SetHistograms : TH1D not created.'']))"

subsection \<open>LogLikelihood\<close>

text \<open>The body of the loop over the bins \<open>1 .. nbins\<close>, adding one bin to the sum.\<close>

definition loglikelihood_bin ::
  "Collaborators \<Rightarrow> bool \<Rightarrow> TF1 \<Rightarrow> TH1D \<Rightarrow> TH1D \<Rightarrow> nat \<Rightarrow> double \<Rightarrow> double"
where
  "loglikelihood_bin ext flag_integration f hist1 hist2 ibin loglikelihood =
     (let n = int_of_double (GetBinContent hist1 ibin);
          k = int_of_double (GetBinContent hist2 ibin);
          xmin = GetBinLowEdge hist1 ibin;
          xmax = GetBinUpEdge hist1 ibin;
          eff = (if flag_integration
                 then ddiv (Integral f xmin xmax) (Fin (xmax - xmin))
                 else ddiv (dadd (Eval f xmax) (Eval f xmin)) (Fin 2))
      in dadd loglikelihood (LogApproxBinomial ext n k eff))"

text \<open>
  Reading \<open>fFitFunction[c]\<close> beyond the end of the vector is undefined. The function
  of chain \<open>c\<close> keeps the parameters it was given.
\<close>

definition LogLikelihood ::
  "Collaborators \<Rightarrow> BCEfficiencyFitter \<Rightarrow> real list \<Rightarrow> error + (double \<times> BCEfficiencyFitter)"
where
  "LogLikelihood ext s params =
     (let c = (if fMCMCCurrentChain s \<ge> 0 then nat (fMCMCCurrentChain s) else 0)
      in if c \<ge> length (fFitFunction s) then Inl UndefinedBehaviour
         else (case (fFitFunction s ! c, fHistogram1 s, fHistogram2 s) of
                 (Some f, Some hist1, Some hist2) \<Rightarrow>
                   (let f' = SetParameters f params;
                        nbins = GetNbinsX hist1
                    in Inr (fold (loglikelihood_bin ext (fFlagIntegration s) f' hist1 hist2)
                              [1..<nbins + 1] (Fin 0),
                            s\<lparr>fFitFunction := (fFitFunction s)[c := Some f']\<rparr>))
               | _ \<Rightarrow> Inr (NaN, s)))"

subsection \<open>CalculatePValueFast\<close>

text \<open>
  The first loop, over \<open>ibin = 0 .. nbins - 1\<close>, carries the toy histogram (a vector
  of \<open>unsigned\<close>), the expectation and \<open>logp\<close>. Assigning the \<open>int\<close> \<open>k\<close> to an
  element of the histogram converts it modulo \<open>2 ^ 32\<close>.
\<close>

type_synonym start_state = "32 word list \<times> double list \<times> double"

definition start_bin ::
  "Collaborators \<Rightarrow> TH1D \<Rightarrow> TH1D \<Rightarrow> TF1 \<Rightarrow> nat \<Rightarrow> start_state \<Rightarrow> start_state"
where
  "start_bin ext hist1 hist2 f ibin st =
     (case st of (histogram, expectation, logp) \<Rightarrow>
        (let xmin = GetBinLowEdge hist1 (ibin + 1);
             xmax = GetBinUpEdge hist1 (ibin + 1);
             yexp = Integral f xmin xmax;
             n = int_of_double (GetBinContent hist1 ibin);
             k = int_of_double (GetBinContent hist2 ibin)
         in (histogram[ibin := word_of_int k],
             expectation[ibin := dmul (double_of_int n) yexp],
             dadd logp (LogApproxBinomial ext n k yexp))))"

text \<open>
  Each round of the first loop calls \<open>fFitFunction[0]->Integral\<close>, which is undefined
  when the vector is empty or its first pointer is null.
\<close>

fun start_loop ::
  "Collaborators \<Rightarrow> TH1D \<Rightarrow> TH1D \<Rightarrow> TF1 option list \<Rightarrow> nat list \<Rightarrow> start_state
   \<Rightarrow> error + start_state"
where
  "start_loop ext hist1 hist2 fs [] st = Inr st"
| "start_loop ext hist1 hist2 fs (ibin # rest) st =
     (case fs of
        Some f # _ \<Rightarrow> start_loop ext hist1 hist2 fs rest (start_bin ext hist1 hist2 f ibin st)
      | _ \<Rightarrow> Inl UndefinedBehaviour)"

text \<open>
  What the loop over the iterations changes: the toy histogram, the running
  \<open>logp\<close> and the number of values drawn from \<open>fRandom\<close>. The generator is the
  sequence \<open>rnd\<close> of the values that \<open>Rndm()\<close> returns, in the order of the calls.
\<close>

record toy =
  histogram :: "32 word list"
  logp :: double
  drawn :: nat

text \<open>The body of the loop over the bins inside one iteration.\<close>

definition toy_bin :: "(nat \<Rightarrow> real) \<Rightarrow> TH1D \<Rightarrow> double list \<Rightarrow> nat \<Rightarrow> toy \<Rightarrow> toy" where
  "toy_bin rnd hist1 expectation ibin w =
     (let n = int_of_double (GetBinContent hist1 ibin);
          k = sint (histogram w ! ibin);
          yexp = (if n > 0 then ddiv (expectation ! ibin) (double_of_int n) else Fin 0);
          ptest = dsub (Fin (rnd (drawn w))) (Fin (1 / 2));
          w1 = w\<lparr>drawn := drawn w + 1\<rparr>
      in if \<not> (dgreater yexp (Fin 0) \<or> dless yexp (Fin 1)) then w1
         else if dgreater ptest (Fin 0) \<and> k < n then
           (let r = ddiv (dmul (ddiv (dsub (double_of_int n) (double_of_int k))
                                     (dadd (double_of_int k) (Fin 1)))
                               yexp)
                         (dsub (Fin 1) yexp);
                u = Fin (rnd (drawn w1));
                w2 = w1\<lparr>drawn := drawn w1 + 1\<rparr>
            in if dless u r
               then w2\<lparr>histogram := (histogram w2)[ibin := word_of_int (k + 1)],
                       logp := dadd (logp w2) (dlog r)\<rparr>
               else w2)
         else if dle ptest (Fin 0) \<and> k > 0 then
           (let r = ddiv (dmul (ddiv (double_of_int k)
                                     (dsub (double_of_int n) (dsub (double_of_int k) (Fin 1))))
                               (dsub (Fin 1) yexp))
                         yexp;
                u = Fin (rnd (drawn w1));
                w2 = w1\<lparr>drawn := drawn w1 + 1\<rparr>
            in if dless u r
               then w2\<lparr>histogram := (histogram w2)[ibin := word_of_int (k - 1)],
                       logp := dadd (logp w2) (dlog r)\<rparr>
               else w2)
         else w1)"

text \<open>
  One iteration, with no callback: all bins, then the counter. The state of the loop
  over the iterations is the toy data and \<open>counter_pvalue\<close>, here the number of
  iterations counted so far. The source holds it in an \<open>int\<close>, whose increment at
  \<open>2 ^ 31 - 1\<close> is undefined: \<open>CalculatePValueFast\<close> below gives
  \<open>UndefinedBehaviour\<close> for a run that counts further than that.
\<close>

definition toy_iteration ::
  "(nat \<Rightarrow> real) \<Rightarrow> TH1D \<Rightarrow> double list \<Rightarrow> nat \<Rightarrow> double \<Rightarrow> toy \<times> int \<Rightarrow> toy \<times> int"
where
  "toy_iteration rnd hist1 expectation nbins logp_start st =
     (case st of (w, counter_pvalue) \<Rightarrow>
        (let w' = fold (toy_bin rnd hist1 expectation) [0..<nbins] w
         in (w', if dless (logp w') logp_start then counter_pvalue + 1 else counter_pvalue)))"

text \<open>
  \<open>CalculatePValueFast(par, pvalue, pvalueCorrected, nIterations)\<close>, which is the
  five-argument function with a null callback. The argument \<open>par\<close> is not used by the
  source, and \<open>nIterations\<close> is an \<open>unsigned\<close>, a number below \<open>2 ^ 32\<close>. The
  result is the returned flag, the values written to \<open>pvalue\<close> and
  \<open>pvalueCorrected\<close> (\<open>None\<close> when they are not written) and the fitter afterwards.
\<close>

definition CalculatePValueFast ::
  "Collaborators \<Rightarrow> (nat \<Rightarrow> real) \<Rightarrow> BCEfficiencyFitter \<Rightarrow> nat
   \<Rightarrow> error + (bool \<times> (double \<times> double) option \<times> BCEfficiencyFitter)"
where
  "CalculatePValueFast ext rnd s nIterations =
     (case (fHistogram1 s, fHistogram2 s) of
        (Some hist1, Some hist2) \<Rightarrow>
          (let nbins = GetNbinsX hist1
           in case start_loop ext hist1 hist2 (fFitFunction s) [0..<nbins]
                     (replicate nbins 0, replicate nbins (Fin 0), Fin 0) of
                Inl e \<Rightarrow> Inl e
              | Inr (histogram0, expectation, logp_start) \<Rightarrow>
                  (let w0 = \<lparr>histogram = histogram0, logp = logp_start, drawn = fRandom s\<rparr>;
                       (w, counter_pvalue) =
                          ((toy_iteration rnd hist1 expectation nbins logp_start) ^^ nIterations)
                            (w0, 0);
                       pvalue = ddiv (double_of_int counter_pvalue) (Fin (of_nat nIterations));
                       pvalueCorrected = CorrectPValue ext pvalue (fNParameters s) nbins
                   in if counter_pvalue > 2 ^ 31 - 1 then Inl UndefinedBehaviour
                      else Inr (True, Some (pvalue, pvalueCorrected),
                                s\<lparr>fRandom := drawn w\<rparr>)))
      | _ \<Rightarrow> Inr (False, None, s))"

subsection \<open>GetUncertainties\<close>

text \<open>
  The posterior histogram has 1000 bins on \<open>[0, 1]\<close>; bin \<open>i\<close> (from 1) has its
  centre at \<open>(i - 1/2) / 1000\<close>. It is filled with \<open>ApproxBinomial\<close> at the bin
  centres and scaled by the inverse of the sum of its contents.
\<close>

definition binomial_histogram :: "Collaborators \<Rightarrow> int \<Rightarrow> int \<Rightarrow> double list" where
  "binomial_histogram ext n k =
     (let filled = map (\<lambda>i. ApproxBinomial ext n k (Fin ((real i - 1 / 2) / 1000))) [1..<1001];
          c = ddiv (Fin 1) (fold (\<lambda>x acc. dadd acc x) filled (Fin 0))
      in map (\<lambda>x. dmul c x) filled)"

text \<open>
  The result is the returned flag, the values written to \<open>xexp\<close>, \<open>xmin\<close> and
  \<open>xmax\<close>, in this order, and the fitter afterwards.
\<close>

definition GetUncertainties ::
  "Collaborators \<Rightarrow> BCEfficiencyFitter \<Rightarrow> int \<Rightarrow> int \<Rightarrow> double
   \<Rightarrow> bool \<times> (double \<times> double \<times> double) \<times> BCEfficiencyFitter"
where
  "GetUncertainties ext s n k p =
     (if n = 0 then (False, (Fin 0, Fin 0, Fin 0), s)
      else
        (let hb = binomial_histogram ext n k;
             s' = s\<lparr>fHistogramBinomial := Some hb\<rparr>
         in case fDataPointType s of
              kDataPointRMS \<Rightarrow>
                (let xexp = GetMean ext hb; rms = GetRMS ext hb
                 in (True, (xexp, dsub xexp rms, dadd xexp rms), s'))
            | kDataPointSmallestInterval \<Rightarrow>
                (let xexp = ddiv (double_of_int k) (double_of_int n)
                 in case GetSmallestIntervals ext hb p of
                      [] \<Rightarrow> (True, (Fin 0, Fin 0, Fin 0), s')
                    | front # _ \<Rightarrow> (True, (xexp, xmin front, xmax front), s'))
            | kDataPointCentralInterval \<Rightarrow>
                (let q = GetQuantiles ext hb
                           [ddiv (dsub (Fin 1) p) (Fin 2), Fin (1 / 2), ddiv (dadd (Fin 1) p) (Fin 2)]
                 in (True, (q ! 1, q ! 0, q ! 2), s'))
            | kDataPointInvalid \<Rightarrow> (True, (Fin 0, Fin 0, Fin 0), s')))"

section \<open>What the specification says\<close>

text \<open>
  The definitions of this section follow the words of the specification, not the source;
  the theorems compare them with the operations above.
\<close>

text \<open>
  Valid input of \<open>SetHistograms\<close>: both histograms present, the same number of bins,
  low edges that differ by at most \<open>epsilon\<close> in every bin and so for the upper edge of
  the last bin, and no bin where the first histogram has less than the second.
\<close>

definition histograms_valid :: "TH1D option \<Rightarrow> TH1D option \<Rightarrow> bool" where
  "histograms_valid h1 h2 =
     (case (h1, h2) of
        (Some hist1, Some hist2) \<Rightarrow>
          GetNbinsX hist1 = GetNbinsX hist2
          \<and> (\<forall>i \<in> set [1..<GetNbinsX hist1 + 1].
                \<bar>GetBinLowEdge hist1 i - GetBinLowEdge hist2 i\<bar> \<le> epsilon
                \<and> GetBinContent hist1 i \<ge> GetBinContent hist2 i)
          \<and> \<bar>GetXmax hist1 - GetXmax hist2\<bar> \<le> epsilon
      | _ \<Rightarrow> False)"

text \<open>
  The binned counts of the data model: for each bin \<open>1 .. nbins\<close> its edges, its trials
  \<open>n\<close> and its successes \<open>k\<close>.
\<close>

record BinnedCount =
  bin_xmin :: real
  bin_xmax :: real
  bin_n :: int
  bin_k :: int

definition BinnedCounts :: "TH1D \<Rightarrow> TH1D \<Rightarrow> BinnedCount list" where
  "BinnedCounts hist1 hist2 =
     map (\<lambda>i. \<lparr>bin_xmin = GetBinLowEdge hist1 i, bin_xmax = GetBinUpEdge hist1 i,
               bin_n = int_of_double (GetBinContent hist1 i),
               bin_k = int_of_double (GetBinContent hist2 i)\<rparr>)
       [1..<GetNbinsX hist1 + 1]"

text \<open>Interpolation mode: \<open>(f(xmin) + f(xmax)) / 2\<close>.\<close>

definition interpolated_efficiency :: "(real \<Rightarrow> double) \<Rightarrow> BinnedCount \<Rightarrow> double" where
  "interpolated_efficiency f b = ddiv (dadd (f (bin_xmin b)) (f (bin_xmax b))) (Fin 2)"

text \<open>The sum of \<open>LogApproxBinomial(n, k, eff)\<close> over the bins.\<close>

definition spec_LogLikelihood ::
  "Collaborators \<Rightarrow> (real \<Rightarrow> double) \<Rightarrow> BinnedCount list \<Rightarrow> double"
where
  "spec_LogLikelihood ext f bins =
     foldl dadd (Fin 0)
       (map (\<lambda>b. LogApproxBinomial ext (bin_n b) (bin_k b) (interpolated_efficiency f b)) bins)"

text \<open>
  Integration mode: the average of the function over the bin, its integral divided by
  the width of the bin; and the expected counts \<open>n\<close> times this average.
\<close>

definition bin_average :: "TF1 \<Rightarrow> BinnedCount \<Rightarrow> double" where
  "bin_average f b = ddiv (Integral f (bin_xmin b) (bin_xmax b)) (Fin (bin_xmax b - bin_xmin b))"

definition spec_expectation :: "TF1 \<Rightarrow> BinnedCount list \<Rightarrow> double list" where
  "spec_expectation f bins = map (\<lambda>b. dmul (double_of_int (bin_n b)) (bin_average f b)) bins"

definition spec_logp_start :: "Collaborators \<Rightarrow> TF1 \<Rightarrow> BinnedCount list \<Rightarrow> double" where
  "spec_logp_start ext f bins =
     foldl dadd (Fin 0)
       (map (\<lambda>b. LogApproxBinomial ext (bin_n b) (bin_k b) (bin_average f b)) bins)"



text \<open>
  Every toy count is within \<open>[0, n]\<close>, for the \<open>n\<close> that the source reads for its bin.
\<close>

definition toy_inv :: "TH1D \<Rightarrow> 32 word list \<Rightarrow> bool" where
  "toy_inv hist1 h \<longleftrightarrow>
     (\<forall>ibin < length h. 0 \<le> sint (h ! ibin)
        \<and> sint (h ! ibin) \<le> int_of_double (GetBinContent hist1 ibin))"

section \<open>Concrete inputs\<close>

text \<open>
  Collaborators to run the operations with, simple enough to be evaluated; the theorems
  hold for any. The smallest intervals are empty when the requested level is above
  \<open>1\<close>, which no interval reaches.
\<close>

definition ex_ext :: Collaborators where
  "ex_ext =
     \<lparr>LogApproxBinomial = (\<lambda>n k p. dmul (double_of_int k) p),
      ApproxBinomial = (\<lambda>n k p. p),
      CorrectPValue = (\<lambda>pvalue npar nbins. pvalue),
      GetSmallestIntervals =
        (\<lambda>h p. if dle p (Fin 1) then [\<lparr>xmin = Fin 0, xmax = Fin 1\<rparr>] else []),
      GetMean = (\<lambda>h. Fin (1 / 2)),
      GetRMS = (\<lambda>h. Fin (1 / 4)),
      GetQuantiles = (\<lambda>h probs. probs)\<rparr>"

text \<open>A fitter as the constructor leaves it, with no histogram and no function.\<close>

definition ex_fitter :: BCEfficiencyFitter where
  "ex_fitter =
     BCEfficiencyFitter_ctor
       \<lparr>fHistogram1 = None, fHistogram2 = None, fHistogramBinomial = None,
        fDataPointType = kDataPointRMS, fFlagIntegration = True, fFitFunction = [],
        fMCMCCurrentChain = - 1, fDataSet = None, fFitFunctionIndices = (0, 0),
        fNParameters = 0, fRandom = 0, fPValue = Fin (- 1)\<rparr>"

text \<open>
  One bin on \<open>[0, 2]\<close> with 4 trials and 2 successes; the underflow bins hold the same
  counts.
\<close>

definition ex_total :: TH1D where
  "ex_total = \<lparr>edges = [0, 2], contents = [4, 4, 0]\<rparr>"

definition ex_passed :: TH1D where
  "ex_passed = \<lparr>edges = [0, 2], contents = [2, 2, 0]\<rparr>"

text \<open>
  A constant function with one parameter, its value (\<open>pol0\<close> of ROOT): the integral
  from \<open>a\<close> to \<open>b\<close> is the value times \<open>b - a\<close>. Here the value is \<open>1/4\<close>.
\<close>

definition ex_quarter :: TF1 where
  "ex_quarter =
     \<lparr>formula = (\<lambda>ps x. Fin (ps ! 0)), integrator = (\<lambda>ps a b. Fin (ps ! 0 * (b - a))),
      parameters = [1 / 4]\<rparr>"

text \<open>The values of \<open>Rndm()\<close>: \<open>3/4, 1/4, 3/4, 1/4, ...\<close>\<close>

definition ex_rnd :: "nat \<Rightarrow> real" where
  "ex_rnd i = (if even i then 3 / 4 else 1 / 4)"

text \<open>
  One bin on \<open>[0, 1]\<close> with 2 trials and 1 success, the underflow bins holding the
  same counts, and the same function with the values \<open>1\<close> and \<open>0\<close>.
\<close>

definition ex_unit_total :: TH1D where
  "ex_unit_total = \<lparr>edges = [0, 1], contents = [2, 2, 0]\<rparr>"

definition ex_unit_passed :: TH1D where
  "ex_unit_passed = \<lparr>edges = [0, 1], contents = [1, 1, 0]\<rparr>"

definition ex_one :: TF1 where
  "ex_one = ex_quarter\<lparr>parameters := [1]\<rparr>"

definition ex_zero :: TF1 where
  "ex_zero = ex_quarter\<lparr>parameters := [0]\<rparr>"

text \<open>
  One bin on \<open>[0, 1]\<close> with 4 trials and 2 successes, and nothing in the underflow
  and overflow bins.
\<close>

definition ex_inner_total :: TH1D where
  "ex_inner_total = \<lparr>edges = [0, 1], contents = [0, 4, 0]\<rparr>"

definition ex_inner_passed :: TH1D where
  "ex_inner_passed = \<lparr>edges = [0, 1], contents = [0, 2, 0]\<rparr>"

text \<open>
  Another passed histogram for the total histogram above: it has an entry in the
  underflow bin, where the total histogram has none, and the 2 successes in bin 1.
\<close>

definition ex_low_passed :: TH1D where
  "ex_low_passed = \<lparr>edges = [0, 1], contents = [1, 2, 0]\<rparr>"

text \<open>
  One bin on \<open>[0, 1]\<close> with 4 trials and 2 successes, where the underflow and
  overflow bins of the passed histogram hold more than those of the total histogram.
\<close>

definition ex_over_total :: TH1D where
  "ex_over_total = \<lparr>edges = [0, 1], contents = [1, 4, 1]\<rparr>"

definition ex_over_passed :: TH1D where
  "ex_over_passed = \<lparr>edges = [0, 1], contents = [7, 2, 8]\<rparr>"

text \<open>
  Two bins on \<open>[0, 2]\<close> with 4 trials each; the passed histogram has the content
  \<open>-1\<close> in bin 1, as a histogram filled with weights can have.
\<close>

definition ex_two_total :: TH1D where
  "ex_two_total = \<lparr>edges = [0, 1, 2], contents = [0, 4, 4, 0]\<rparr>"

definition ex_two_passed :: TH1D where
  "ex_two_passed = \<lparr>edges = [0, 1, 2], contents = [0, - 1, 2, 0]\<rparr>"

text \<open>The fitter after \<open>SetHistograms\<close>, without and with a function.\<close>

definition ex_fitter_hists :: BCEfficiencyFitter where
  "ex_fitter_hists = fst (snd (SetHistograms (Some ex_total) (Some ex_passed) ex_fitter))"

definition ex_fitter_ready :: BCEfficiencyFitter where
  "ex_fitter_ready = ex_fitter_hists\<lparr>fFitFunction := [Some ex_quarter], fNParameters := 1\<rparr>"

section \<open>Properties of the doubles\<close>

lemma dadd_commute: "dadd a b = dadd b a"
  by (cases a; cases b) simp_all



lemma fold_dadd: "fold (\<lambda>i acc. dadd acc (g i)) xs a = foldl dadd a (map g xs)"
  by (induction xs arbitrary: a) simp_all

lemma sint_word_of_int_32:
  "- (2 ^ 31) \<le> k \<Longrightarrow> k < 2 ^ 31 \<Longrightarrow> sint (word_of_int k :: 32 word) = k"
  by (simp add: int_word_sint)

lemma int_of_double_range: "- (2 ^ 31) \<le> int_of_double x \<and> int_of_double x < 2 ^ 31"
  by (simp add: int_of_double_def Let_def)

section \<open>Evaluation of the concrete inputs\<close>

lemmas th1d_defs = GetNbinsX_def GetBinLowEdge_def GetBinUpEdge_def GetBinContent_def
  GetXmin_def GetXmax_def

lemmas ex_hist_defs = ex_total_def ex_passed_def ex_unit_total_def ex_unit_passed_def
  ex_inner_total_def ex_inner_passed_def ex_low_passed_def ex_over_total_def
  ex_over_passed_def ex_two_total_def ex_two_passed_def

lemma int_of_double_small:
  "int_of_double 0 = 0" "int_of_double 1 = 1" "int_of_double 2 = 2" "int_of_double 4 = 4"
  "int_of_double 7 = 7" "int_of_double (- 1) = - 1"
  by (simp_all add: int_of_double_def trunc_real_def ceiling_def)

lemma ex_fitter_fields:
  "fHistogram1 ex_fitter = None" "fHistogram2 ex_fitter = None"
  "fDataPointType ex_fitter = kDataPointSmallestInterval"
  "\<not> fFlagIntegration ex_fitter" "fFitFunction ex_fitter = []"
  "fMCMCCurrentChain ex_fitter = - 1" "fRandom ex_fitter = 0" "fNParameters ex_fitter = 0"
  by (simp_all add: ex_fitter_def BCEfficiencyFitter_ctor_def)

lemma SetHistograms_ex:
  "SetHistograms (Some ex_total) (Some ex_passed) ex_fitter =
     (True,
      ex_fitter\<lparr>fHistogram1 := Some ex_total, fHistogram2 := Some ex_passed,
        fDataSet := Some (new_data_set ex_total), fFitFunctionIndices := (0, 1)\<rparr>,
      [])"
  by (simp add: SetHistograms_def ex_hist_defs th1d_defs epsilon_def)

lemma ex_fitter_hists_fields:
  "fHistogram1 ex_fitter_hists = Some ex_total" "fHistogram2 ex_fitter_hists = Some ex_passed"
  "\<not> fFlagIntegration ex_fitter_hists" "fFitFunction ex_fitter_hists = []"
  "fMCMCCurrentChain ex_fitter_hists = - 1" "fRandom ex_fitter_hists = 0"
  "fNParameters ex_fitter_hists = 0"
  by (simp_all add: ex_fitter_hists_def SetHistograms_ex ex_fitter_fields)

lemma ex_fitter_ready_fields:
  "fHistogram1 ex_fitter_ready = Some ex_total" "fHistogram2 ex_fitter_ready = Some ex_passed"
  "\<not> fFlagIntegration ex_fitter_ready" "fFitFunction ex_fitter_ready = [Some ex_quarter]"
  "fMCMCCurrentChain ex_fitter_ready = - 1" "fRandom ex_fitter_ready = 0"
  "fNParameters ex_fitter_ready = 1"
  by (simp_all add: ex_fitter_ready_def ex_fitter_hists_fields)

section \<open>SetHistograms\<close>

lemma check_bins_None:
  "check_bins hist1 hist2 is = None \<longleftrightarrow>
     (\<forall>i \<in> set is. \<bar>GetBinLowEdge hist1 i - GetBinLowEdge hist2 i\<bar> \<le> epsilon
                   \<and> GetBinContent hist1 i \<ge> GetBinContent hist2 i)"
  by (induction "is") auto

lemma check_bins_Some_nonempty:
  "check_bins hist1 hist2 is = Some msg \<Longrightarrow> msg \<noteq> []"
  by (induction "is") (auto split: if_splits)

lemma histograms_valid_Some:
  "histograms_valid (Some hist1) (Some hist2) \<longleftrightarrow>
     GetNbinsX hist1 = GetNbinsX hist2
     \<and> check_bins hist1 hist2 [1..<GetNbinsX hist1 + 1] = None
     \<and> \<bar>GetXmax hist1 - GetXmax hist2\<bar> \<le> epsilon"
  unfolding histograms_valid_def check_bins_None by simp

lemma SetHistograms_Some:
  assumes "bins = [1..<GetNbinsX hist1 + 1]"
  shows "SetHistograms (Some hist1) (Some hist2) s =
     (if GetNbinsX hist1 \<noteq> GetNbinsX hist2
      then (False, s, [''BCEfficiencyFitter::SetHistograms : Histograms do not have the same number of bins.''])
      else (case check_bins hist1 hist2 bins of
              Some msg \<Rightarrow> (False, s, [msg])
            | None \<Rightarrow>
                if \<bar>GetXmax hist1 - GetXmax hist2\<bar> > epsilon
                then (False, s, [''BCEfficiencyFitter::SetHistograms : Histogram 1 and 2 don't have same bins.''])
                else (True,
                      s\<lparr>fHistogram1 := Some hist1, fHistogram2 := Some hist2,
                        fDataSet := Some (new_data_set hist1),
                        fFitFunctionIndices := (0, 1)\<rparr>,
                      [])))"
  unfolding assms SetHistograms_def by simp

text \<open>Valid input is accepted: the flag is true.\<close>

lemma SetHistograms_accepts:
  assumes "histograms_valid h1 h2"
  shows "fst (SetHistograms h1 h2 s)"
proof -
  from assms obtain hist1 hist2 where h: "h1 = Some hist1" "h2 = Some hist2"
    by (auto simp: histograms_valid_def split: option.splits)
  define bins where "bins = [1..<GetNbinsX hist1 + 1]"
  from assms have "GetNbinsX hist1 = GetNbinsX hist2" "check_bins hist1 hist2 bins = None"
    "\<bar>GetXmax hist1 - GetXmax hist2\<bar> \<le> epsilon"
    unfolding h histograms_valid_Some bins_def by blast+
  then show ?thesis
    unfolding h SetHistograms_Some[OF bins_def] by simp
qed

text \<open>
  C8. When the two histograms are not valid input (one is absent, the numbers of bins
  differ, a low edge or the last upper edge differs by more than \<open>epsilon\<close>, or a bin of
  the first has less than the same bin of the second), \<open>SetHistograms\<close> returns false,
  gives one non-empty message to the error log and leaves the fitter as it was: histogram
  pointers, data set and everything else.
\<close>

theorem SetHistograms_rejects:
  assumes "\<not> histograms_valid h1 h2"
  shows "\<exists>msg. msg \<noteq> [] \<and> SetHistograms h1 h2 s = (False, s, [msg])"
proof (cases "h1 = None \<or> h2 = None")
  case True
  then show ?thesis by (auto simp: SetHistograms_def split: option.splits)
next
  case False
  then obtain hist1 hist2 where h: "h1 = Some hist1" "h2 = Some hist2" by auto
  define bins where "bins = [1..<GetNbinsX hist1 + 1]"
  show ?thesis
  proof (cases "check_bins hist1 hist2 bins")
    case None
    with assms have "GetNbinsX hist1 \<noteq> GetNbinsX hist2
        \<or> \<bar>GetXmax hist1 - GetXmax hist2\<bar> > epsilon"
      unfolding h histograms_valid_Some bins_def by auto
    with None show ?thesis
      unfolding h SetHistograms_Some[OF bins_def] by auto
  next
    case (Some msg)
    with check_bins_Some_nonempty[OF Some] show ?thesis
      unfolding h SetHistograms_Some[OF bins_def] by simp
  qed
qed

text \<open>The second histogram has more entries than the first in bin 1.\<close>

theorem SetHistograms_rejects_witness:
  "\<not> histograms_valid (Some ex_passed) (Some ex_total)
   \<and> (\<exists>msg. msg \<noteq> [] \<and>
         SetHistograms (Some ex_passed) (Some ex_total) ex_fitter = (False, ex_fitter, [msg]))"
proof -
  have nv: "\<not> histograms_valid (Some ex_passed) (Some ex_total)"
    by (simp add: histograms_valid_def ex_hist_defs th1d_defs)
  from SetHistograms_rejects[OF nv] nv show ?thesis by blast
qed

section \<open>LogLikelihood\<close>

lemma loglikelihood_bin_interpolation:
  "loglikelihood_bin ext False (SetParameters f params) hist1 hist2 =
     (\<lambda>ibin acc. dadd acc
        (LogApproxBinomial ext (int_of_double (GetBinContent hist1 ibin))
           (int_of_double (GetBinContent hist2 ibin))
           (ddiv (dadd (formula f params (GetBinLowEdge hist1 ibin))
                       (formula f params (GetBinUpEdge hist1 ibin))) (Fin 2))))"
  by (intro ext) (simp add: loglikelihood_bin_def Let_def Eval_def SetParameters_def dadd_commute)

text \<open>The constructor selects the interpolation mode and \<open>SetHistograms\<close> keeps it.\<close>

lemma ctor_interpolation: "\<not> fFlagIntegration (BCEfficiencyFitter_ctor base)"
  by (simp add: BCEfficiencyFitter_ctor_def)

lemma SetHistograms_keeps_mode:
  "fFlagIntegration (fst (snd (SetHistograms h1 h2 s))) = fFlagIntegration s"
  by (simp add: SetHistograms_def split: option.splits)

text \<open>
  C9. In interpolation mode, which the constructor selects, with both histograms set and
  the function of the current chain set, \<open>LogLikelihood(params)\<close> returns the sum over
  the bins \<open>1 .. nbins\<close> of \<open>LogApproxBinomial(n, k, eff)\<close>, where \<open>eff\<close> is
  \<open>(f(xmin, params) + f(xmax, params)) / 2\<close> for the edges of the bin.
\<close>

theorem LogLikelihood_interpolation:
  assumes "\<not> fFlagIntegration s"
    and "fHistogram1 s = Some hist1" and "fHistogram2 s = Some hist2"
    and "c = (if fMCMCCurrentChain s \<ge> 0 then nat (fMCMCCurrentChain s) else 0)"
    and "c < length (fFitFunction s)" and "fFitFunction s ! c = Some f"
  shows "\<exists>s'. LogLikelihood ext s params =
           Inr (spec_LogLikelihood ext (formula f params) (BinnedCounts hist1 hist2), s')"
proof -
  have "fold (loglikelihood_bin ext False (SetParameters f params) hist1 hist2)
          [1..<GetNbinsX hist1 + 1] (Fin 0)
        = spec_LogLikelihood ext (formula f params) (BinnedCounts hist1 hist2)"
    unfolding loglikelihood_bin_interpolation fold_dadd spec_LogLikelihood_def
      BinnedCounts_def interpolated_efficiency_def
    by (simp add: comp_def del: upt_Suc)
  with assms show ?thesis
    unfolding LogLikelihood_def Let_def by (simp del: upt_Suc)
qed

theorem LogLikelihood_interpolation_witness:
  "\<not> fFlagIntegration ex_fitter_ready
   \<and> fHistogram1 ex_fitter_ready = Some ex_total \<and> fHistogram2 ex_fitter_ready = Some ex_passed
   \<and> (0::nat) = (if fMCMCCurrentChain ex_fitter_ready \<ge> 0
                  then nat (fMCMCCurrentChain ex_fitter_ready) else 0)
   \<and> 0 < length (fFitFunction ex_fitter_ready) \<and> fFitFunction ex_fitter_ready ! 0 = Some ex_quarter
   \<and> spec_LogLikelihood ex_ext (formula ex_quarter [1 / 4]) (BinnedCounts ex_total ex_passed)
       = Fin (1 / 2)
   \<and> (\<exists>s'. LogLikelihood ex_ext ex_fitter_ready [1 / 4] = Inr (Fin (1 / 2), s'))"
proof -
  have a: "\<not> fFlagIntegration ex_fitter_ready"
    and b: "fHistogram1 ex_fitter_ready = Some ex_total"
    and c: "fHistogram2 ex_fitter_ready = Some ex_passed"
    and d: "(0::nat) = (if fMCMCCurrentChain ex_fitter_ready \<ge> 0
                        then nat (fMCMCCurrentChain ex_fitter_ready) else 0)"
    and e: "0 < length (fFitFunction ex_fitter_ready)"
    and f: "fFitFunction ex_fitter_ready ! 0 = Some ex_quarter"
    by (simp_all add: ex_fitter_ready_fields)
  have v: "spec_LogLikelihood ex_ext (formula ex_quarter [1 / 4])
             (BinnedCounts ex_total ex_passed) = Fin (1 / 2)"
    by (simp add: spec_LogLikelihood_def BinnedCounts_def interpolated_efficiency_def
        ex_hist_defs ex_quarter_def ex_ext_def th1d_defs int_of_double_small double_of_int_def)
  from LogLikelihood_interpolation[OF a b c d e f, of ex_ext "[1 / 4]"] a b c d e f v
  show ?thesis by simp
qed


section \<open>GetUncertainties\<close>

text \<open>
  C7. With \<open>n = 0\<close>, for every \<open>k\<close> and every confidence level,
  \<open>GetUncertainties\<close> returns false with \<open>xexp\<close>, \<open>xmin\<close> and \<open>xmax\<close> all
  set to 0; the fitter is not changed and nothing is raised.
\<close>

theorem GetUncertainties_no_trials:
  "GetUncertainties ext s 0 k p = (False, (Fin 0, Fin 0, Fin 0), s)"
  by (simp add: GetUncertainties_def)

text \<open>
  C5. With \<open>n\<close> other than 0 and the smallest-interval type, when
  \<open>GetSmallestIntervals\<close> finds no interval in the posterior histogram for the
  requested level, \<open>GetUncertainties\<close> sets \<open>xexp\<close>, \<open>xmin\<close> and \<open>xmax\<close>
  to 0 and returns true.
\<close>

theorem GetUncertainties_no_interval:
  assumes "n \<noteq> 0"
    and "fDataPointType s = kDataPointSmallestInterval"
    and "GetSmallestIntervals ext (binomial_histogram ext n k) p = []"
  shows "GetUncertainties ext s n k p =
           (True, (Fin 0, Fin 0, Fin 0),
            s\<lparr>fHistogramBinomial := Some (binomial_histogram ext n k)\<rparr>)"
  using assms by (simp add: GetUncertainties_def Let_def)

text \<open>Three trials, one success and the level 2, which no interval reaches.\<close>

theorem GetUncertainties_no_interval_witness:
  "(3::int) \<noteq> 0 \<and> fDataPointType ex_fitter = kDataPointSmallestInterval
   \<and> GetSmallestIntervals ex_ext (binomial_histogram ex_ext 3 1) (Fin 2) = []
   \<and> GetUncertainties ex_ext ex_fitter 3 1 (Fin 2) =
       (True, (Fin 0, Fin 0, Fin 0),
        ex_fitter\<lparr>fHistogramBinomial := Some (binomial_histogram ex_ext 3 1)\<rparr>)"
proof -
  have a: "(3::int) \<noteq> 0" by simp
  have b: "fDataPointType ex_fitter = kDataPointSmallestInterval"
    by (simp add: ex_fitter_fields)
  have c: "GetSmallestIntervals ex_ext (binomial_histogram ex_ext 3 1) (Fin 2) = []"
    by (simp add: ex_ext_def)
  from GetUncertainties_no_interval[OF a b c] a b c show ?thesis by simp
qed

section \<open>The Metropolis step of CalculatePValueFast\<close>








section \<open>The bound on the toy counts\<close>

lemma toy_inv_update:
  assumes "toy_inv hist1 h" and "0 \<le> v" and "v \<le> int_of_double (GetBinContent hist1 ibin)"
  shows "toy_inv hist1 (h[ibin := word_of_int v])"
proof -
  from assms(3) int_of_double_range[of "GetBinContent hist1 ibin"] have "v < 2 ^ 31" by simp
  with assms(2) have "sint (word_of_int v :: 32 word) = v"
    by (intro sint_word_of_int_32) simp_all
  with assms show ?thesis
    unfolding toy_inv_def
    by (metis length_list_update nth_list_update_eq nth_list_update_neq)
qed

text \<open>One Metropolis step keeps the bound.\<close>

lemma toy_bin_inv:
  assumes "toy_inv hist1 (histogram w)" and "ibin < length (histogram w)"
  shows "toy_inv hist1 (histogram (toy_bin rnd hist1 expectation ibin w))"
proof -
  define k where "k = sint (histogram w ! ibin)"
  define n where "n = int_of_double (GetBinContent hist1 ibin)"
  from assms have kn: "0 \<le> k" "k \<le> n"
    by (simp_all add: toy_inv_def k_def n_def)
  have up: "k < n \<Longrightarrow> toy_inv hist1 ((histogram w)[ibin := word_of_int (k + 1)])"
    using kn assms(1) by (intro toy_inv_update) (simp_all add: n_def)
  have down: "0 < k \<Longrightarrow> toy_inv hist1 ((histogram w)[ibin := word_of_int (k - 1)])"
    using kn assms(1) by (intro toy_inv_update) (simp_all add: n_def)
  show ?thesis
    unfolding toy_bin_def Let_def
    unfolding k_def[symmetric] n_def[symmetric]
    using up down assms(1) by simp
qed

lemma toy_bin_length:
  "length (histogram (toy_bin rnd hist1 expectation ibin w)) = length (histogram w)"
  by (simp add: toy_bin_def Let_def)

lemma fold_toy_bin_inv:
  assumes "toy_inv hist1 (histogram w)" and "\<forall>ibin \<in> set bins. ibin < length (histogram w)"
  shows "toy_inv hist1 (histogram (fold (toy_bin rnd hist1 expectation) bins w))
         \<and> length (histogram (fold (toy_bin rnd hist1 expectation) bins w)) = length (histogram w)"
  using assms
proof (induction bins arbitrary: w)
  case Nil
  then show ?case by simp
next
  case (Cons ibin bins)
  have "toy_inv hist1 (histogram (toy_bin rnd hist1 expectation ibin w))"
    using Cons.prems by (intro toy_bin_inv) simp_all
  moreover have "\<forall>i \<in> set bins. i < length (histogram (toy_bin rnd hist1 expectation ibin w))"
    using Cons.prems by (simp add: toy_bin_length)
  ultimately show ?case
    using Cons.IH[of "toy_bin rnd hist1 expectation ibin w"] by (simp add: toy_bin_length)
qed

lemma toy_iteration_inv:
  assumes "toy_inv hist1 (histogram (fst st))" and "length (histogram (fst st)) = nbins"
  shows "toy_inv hist1 (histogram (fst (toy_iteration rnd hist1 expectation nbins logp_start st)))
     \<and> length (histogram (fst (toy_iteration rnd hist1 expectation nbins logp_start st))) = nbins"
proof -
  obtain w c where st: "st = (w, c)" by (cases st)
  from assms have "\<forall>ibin \<in> set [0..<nbins]. ibin < length (histogram w)"
    by (simp add: st)
  from fold_toy_bin_inv[OF _ this, of hist1 rnd expectation] assms show ?thesis
    by (simp add: st toy_iteration_def Let_def)
qed

lemma toy_iterations_inv:
  assumes "toy_inv hist1 (histogram (fst st))" and "length (histogram (fst st)) = nbins"
  shows "toy_inv hist1
           (histogram (fst ((toy_iteration rnd hist1 expectation nbins logp_start ^^ m) st)))
     \<and> length (histogram (fst ((toy_iteration rnd hist1 expectation nbins logp_start ^^ m) st)))
         = nbins"
proof (induction m)
  case 0
  from assms show ?case by simp
next
  case (Suc m)
  then show ?case using toy_iteration_inv by simp
qed

text \<open>
  The loop over the iterations keeps the bound: counts within \<open>[0, n]\<close> when it
  starts are within \<open>[0, n]\<close> after any number \<open>m\<close> of iterations followed by the
  Metropolis steps of the first \<open>j\<close> bins of the next iteration.
\<close>

lemma toy_walk_inv:
  assumes "toy_inv hist1 (histogram w0)" and "length (histogram w0) = nbins" and "j \<le> nbins"
  shows "toy_inv hist1
           (histogram
              (fold (toy_bin rnd hist1 expectation) [0..<j]
                 (fst ((toy_iteration rnd hist1 expectation nbins logp_start ^^ m) (w0, c)))))"
proof -
  let ?w = "fst ((toy_iteration rnd hist1 expectation nbins logp_start ^^ m) (w0, c))"
  from toy_iterations_inv[of hist1 "(w0, c)" nbins] assms
  have inv: "toy_inv hist1 (histogram ?w)" and len: "length (histogram ?w) = nbins"
    by simp_all
  from len \<open>j \<le> nbins\<close> have "\<forall>ibin \<in> set [0..<j]. ibin < length (histogram ?w)"
    by simp
  from fold_toy_bin_inv[OF inv this] show ?thesis by simp
qed

text \<open>The first loop leaves in every toy bin the count \<open>k\<close> that it read for it.\<close>

lemma start_bin_histogram:
  "fst (start_bin ext hist1 hist2 f ibin st) =
     (fst st)[ibin := word_of_int (int_of_double (GetBinContent hist2 ibin))]"
  by (cases st) (simp add: start_bin_def Let_def)

lemma start_loop_histogram:
  assumes "start_loop ext hist1 hist2 fs bins st = Inr st'"
  shows "length (fst st') = length (fst st) \<and>
     (\<forall>i < length (fst st). fst st' ! i =
        (if i \<in> set bins then word_of_int (int_of_double (GetBinContent hist2 i))
         else fst st ! i))"
  using assms
proof (induction bins arbitrary: st)
  case Nil
  then show ?case by simp
next
  case (Cons ibin bins)
  from Cons.prems obtain f fs' where fs: "fs = Some f # fs'"
    by (auto split: list.splits option.splits)
  with Cons.prems
  have "start_loop ext hist1 hist2 fs bins (start_bin ext hist1 hist2 f ibin st) = Inr st'"
    by simp
  from Cons.IH[OF this] show ?case
    by (auto simp: start_bin_histogram nth_list_update)
qed

text \<open>
  So the bound holds at the start when every bin that the source reads has
  \<open>0 \<le> k \<le> n\<close>.
\<close>

lemma start_loop_inv:
  assumes "start_loop ext hist1 hist2 fs [0..<nbins]
             (replicate nbins 0, replicate nbins (Fin 0), Fin 0)
           = Inr (histogram0, expectation, logp_start)"
    and "\<forall>ibin < nbins. 0 \<le> int_of_double (GetBinContent hist2 ibin)
           \<and> int_of_double (GetBinContent hist2 ibin) \<le> int_of_double (GetBinContent hist1 ibin)"
  shows "toy_inv hist1 histogram0 \<and> length histogram0 = nbins"
proof -
  from start_loop_histogram[OF assms(1)]
  have len: "length histogram0 = nbins"
    and nth: "\<And>i. i < nbins \<Longrightarrow>
                histogram0 ! i = word_of_int (int_of_double (GetBinContent hist2 i))"
    by simp_all
  have "sint (histogram0 ! i) = int_of_double (GetBinContent hist2 i)" if "i < nbins" for i
    using nth[OF that] int_of_double_range[of "GetBinContent hist2 i"]
    by (simp add: sint_word_of_int_32)
  with assms(2) len show ?thesis by (simp add: toy_inv_def)
qed

text \<open>
  C10, as the source has it. Take a run of \<open>CalculatePValueFast\<close>: the first loop
  over the \<open>nbins\<close> toy bins, then the loop over the iterations from the toy data that
  the first loop leaves. When every bin that the first loop reads has
  \<open>0 \<le> k \<le> n\<close>, every toy count is within \<open>[0, n]\<close>, for the \<open>n\<close> read for its
  bin, after any number \<open>m\<close> of iterations followed by the Metropolis steps of the first
  \<open>j\<close> bins of the next iteration, that is after every step of the run.
\<close>

theorem toy_counts_bounded:
  assumes "start_loop ext hist1 hist2 fs [0..<nbins]
             (replicate nbins 0, replicate nbins (Fin 0), Fin 0)
           = Inr (histogram0, expectation, logp_start)"
    and "\<forall>ibin < nbins. 0 \<le> int_of_double (GetBinContent hist2 ibin)
           \<and> int_of_double (GetBinContent hist2 ibin) \<le> int_of_double (GetBinContent hist1 ibin)"
    and "j \<le> nbins"
  shows "toy_inv hist1
           (histogram
              (fold (toy_bin rnd hist1 expectation) [0..<j]
                 (fst ((toy_iteration rnd hist1 expectation nbins logp_start ^^ m)
                         (\<lparr>histogram = histogram0, logp = logp_start, drawn = d\<rparr>, 0)))))"
proof -
  from start_loop_inv[OF assms(1,2)]
  have "toy_inv hist1 histogram0" and "length histogram0 = nbins" by simp_all
  with assms(3) show ?thesis
    by (intro toy_walk_inv) simp_all
qed

text \<open>
  The run on the one-bin histograms with four trials and two successes: the first loop,
  one iteration and the step of the next one.
\<close>

theorem toy_counts_bounded_witness:
  "start_loop ex_ext ex_total ex_passed [Some ex_quarter] [0..<1]
     (replicate 1 0, replicate 1 (Fin 0), Fin 0)
     = Inr ([2], [Fin 2], Fin 1)
   \<and> 0 \<le> int_of_double (GetBinContent ex_passed 0)
   \<and> int_of_double (GetBinContent ex_passed 0) \<le> int_of_double (GetBinContent ex_total 0)
   \<and> (1::nat) \<le> 1
   \<and> toy_inv ex_total
        (histogram
           (fold (toy_bin ex_rnd ex_total [Fin 2]) [0..<1]
              (fst ((toy_iteration ex_rnd ex_total [Fin 2] 1 (Fin 1) ^^ 1)
                      (\<lparr>histogram = [2], logp = Fin 1, drawn = 0\<rparr>, 0)))))"
proof -
  have a: "start_loop ex_ext ex_total ex_passed [Some ex_quarter] [0..<1]
             (replicate 1 0, replicate 1 (Fin 0), Fin 0)
           = Inr ([2], [Fin 2], Fin 1)"
    by (simp add: ex_hist_defs ex_quarter_def ex_ext_def th1d_defs start_bin_def Integral_def
        double_of_int_def int_of_double_small)
  have b: "0 \<le> int_of_double (GetBinContent ex_passed 0)"
    and c: "int_of_double (GetBinContent ex_passed 0) \<le> int_of_double (GetBinContent ex_total 0)"
    by (simp_all add: ex_hist_defs th1d_defs int_of_double_small)
  from b c have bc: "\<forall>ibin < 1. 0 \<le> int_of_double (GetBinContent ex_passed ibin)
      \<and> int_of_double (GetBinContent ex_passed ibin) \<le> int_of_double (GetBinContent ex_total ibin)"
    by simp
  have e: "(1::nat) \<le> 1" by simp
  from toy_counts_bounded[OF a bc e] a b c e show ?thesis by blast
qed

text \<open>
  C10 as it is stated fails: the counts can start outside \<open>[0, n]\<close>, on histograms
  that \<open>SetHistograms\<close> accepts. With more in the underflow bin of the passed histogram
  than in that of the total histogram, the toy count starts at 7 for \<open>n = 1\<close>, and an
  iteration leaves it there. With the content \<open>-1\<close> in a bin of the passed histogram,
  the toy count of that bin starts at \<open>-1\<close>, which the vector of \<open>unsigned\<close> holds as
  \<open>2 ^ 32 - 1\<close>.
\<close>

theorem toy_counts_start_outside:
  "histograms_valid (Some ex_over_total) (Some ex_over_passed)
   \<and> start_loop ex_ext ex_over_total ex_over_passed [Some ex_quarter]
        [0..<GetNbinsX ex_over_total]
        (replicate (GetNbinsX ex_over_total) 0, replicate (GetNbinsX ex_over_total) (Fin 0),
         Fin 0)
       = Inr ([7], [Fin (1 / 4)], Fin (7 / 4))
   \<and> int_of_double (GetBinContent ex_over_total 0) = 1
   \<and> \<not> toy_inv ex_over_total [7]
   \<and> fst (toy_iteration ex_rnd ex_over_total [Fin (1 / 4)] 1 (Fin (7 / 4))
             (\<lparr>histogram = [7], logp = Fin (7 / 4), drawn = 0\<rparr>, 0))
       = \<lparr>histogram = [7], logp = Fin (7 / 4), drawn = 1\<rparr>
   \<and> histograms_valid (Some ex_two_total) (Some ex_two_passed)
   \<and> start_loop ex_ext ex_two_total ex_two_passed [Some ex_quarter]
        [0..<GetNbinsX ex_two_total]
        (replicate (GetNbinsX ex_two_total) 0, replicate (GetNbinsX ex_two_total) (Fin 0),
         Fin 0)
       = Inr ([0, word_of_int (- 1)], [Fin 0, Fin 1], Fin (- 1 / 4))
   \<and> sint ([0, word_of_int (- 1) :: 32 word] ! 1) = - 1
   \<and> unat ([0, word_of_int (- 1) :: 32 word] ! 1) = 2 ^ 32 - 1
   \<and> \<not> toy_inv ex_two_total [0, word_of_int (- 1)]"
proof -
  have v1: "histograms_valid (Some ex_over_total) (Some ex_over_passed)"
    and v2: "histograms_valid (Some ex_two_total) (Some ex_two_passed)"
    by (simp_all add: histograms_valid_def ex_hist_defs th1d_defs epsilon_def)
  have s1: "start_loop ex_ext ex_over_total ex_over_passed [Some ex_quarter]
        [0..<GetNbinsX ex_over_total]
        (replicate (GetNbinsX ex_over_total) 0, replicate (GetNbinsX ex_over_total) (Fin 0),
         Fin 0)
       = Inr ([7], [Fin (1 / 4)], Fin (7 / 4))"
    by (simp add: ex_hist_defs ex_quarter_def ex_ext_def th1d_defs start_bin_def Integral_def
        double_of_int_def int_of_double_small)
  have s2: "start_loop ex_ext ex_two_total ex_two_passed [Some ex_quarter]
        [0..<GetNbinsX ex_two_total]
        (replicate (GetNbinsX ex_two_total) 0, replicate (GetNbinsX ex_two_total) (Fin 0),
         Fin 0)
       = Inr ([0, word_of_int (- 1)], [Fin 0, Fin 1], Fin (- 1 / 4))"
    by (simp add: ex_hist_defs ex_quarter_def ex_ext_def th1d_defs start_bin_def Integral_def
        double_of_int_def int_of_double_small numeral_2_eq_2)
  have n1: "int_of_double (GetBinContent ex_over_total 0) = 1"
    by (simp add: ex_hist_defs th1d_defs int_of_double_small)
  have i1: "\<not> toy_inv ex_over_total [7]"
    by (simp add: toy_inv_def ex_hist_defs th1d_defs int_of_double_small)
  have t1: "fst (toy_iteration ex_rnd ex_over_total [Fin (1 / 4)] 1 (Fin (7 / 4))
             (\<lparr>histogram = [7], logp = Fin (7 / 4), drawn = 0\<rparr>, 0))
       = \<lparr>histogram = [7], logp = Fin (7 / 4), drawn = 1\<rparr>"
    by (simp add: toy_iteration_def toy_bin_def ex_hist_defs ex_rnd_def th1d_defs
        double_of_int_def int_of_double_small dgreater_def dsub_def Let_def)
  have w1: "sint ([0, word_of_int (- 1) :: 32 word] ! 1) = - 1"
    and w2: "unat ([0, word_of_int (- 1) :: 32 word] ! 1) = 2 ^ 32 - 1"
    by (simp_all add: unsigned_minus_1_eq_mask mask_eq_exp_minus_1)
  have i2: "\<not> toy_inv ex_two_total [0, word_of_int (- 1)]"
  proof
    assume "toy_inv ex_two_total [0, word_of_int (- 1)]"
    then have "0 \<le> sint ([0, word_of_int (- 1) :: 32 word] ! 1)"
      unfolding toy_inv_def by (elim allE[of _ 1]) simp
    with w1 show False by simp
  qed
  from v1 s1 n1 i1 t1 v2 s2 w1 w2 i2 show ?thesis by blast
qed

section \<open>The run of CalculatePValueFast\<close>

lemma start_loop_Some:
  "start_loop ext hist1 hist2 (Some f # fs) bins st =
     Inr (fold (start_bin ext hist1 hist2 f) bins st)"
  by (induction bins arbitrary: st) simp_all

lemma ddiv_zero_zero: "ddiv (double_of_int 0) (Fin 0) = NaN"
  by (simp add: double_of_int_def signed_inf_def)

text \<open>The call returns false, writing neither output, when a histogram is absent.\<close>

lemma CalculatePValueFast_absent:
  assumes "fHistogram1 s = None \<or> fHistogram2 s = None"
  shows "CalculatePValueFast ext rnd s nIterations = Inr (False, None, s)"
  using assms by (auto simp: CalculatePValueFast_def split: option.splits)

text \<open>It never returns false when both histograms are present.\<close>

lemma CalculatePValueFast_present:
  assumes "fHistogram1 s = Some hist1" and "fHistogram2 s = Some hist2"
  shows "CalculatePValueFast ext rnd s nIterations \<noteq> Inr (False, out, s')"
  using assms
  by (simp add: CalculatePValueFast_def Let_def split: sum.splits prod.splits)

text \<open>The counter grows by at most one in each iteration.\<close>

lemma toy_iteration_counter:
  "snd (toy_iteration rnd hist1 expectation nbins logp_start st) \<le> snd st + 1"
  by (cases st) (simp add: toy_iteration_def Let_def)

lemma toy_iterations_counter:
  "snd ((toy_iteration rnd hist1 expectation nbins logp_start ^^ m) st) \<le> snd st + int m"
proof (induction m)
  case 0
  show ?case by simp
next
  case (Suc m)
  from toy_iteration_counter[of rnd hist1 expectation nbins logp_start
      "(toy_iteration rnd hist1 expectation nbins logp_start ^^ m) st"] Suc
  show ?case by simp
qed

text \<open>
  With both histograms and the first function pointer set, and fewer than \<open>2 ^ 31\<close>
  iterations, the call returns true with \<open>pvalue = counter_pvalue / nIterations\<close> for the
  counter that the loop over the iterations leaves, and with \<open>CorrectPValue\<close> of it.
\<close>

lemma CalculatePValueFast_function:
  assumes "fHistogram1 s = Some hist1" and "fHistogram2 s = Some hist2"
    and "fFitFunction s = Some f # fs" and "nIterations < 2 ^ 31"
  shows "CalculatePValueFast ext rnd s nIterations =
     (let nbins = GetNbinsX hist1;
          (histogram0, expectation, logp_start) =
             fold (start_bin ext hist1 hist2 f) [0..<nbins]
               (replicate nbins 0, replicate nbins (Fin 0), Fin 0);
          (w, counter_pvalue) =
             (toy_iteration rnd hist1 expectation nbins logp_start ^^ nIterations)
               (\<lparr>histogram = histogram0, logp = logp_start, drawn = fRandom s\<rparr>, 0);
          pvalue = ddiv (double_of_int counter_pvalue) (Fin (of_nat nIterations))
      in Inr (True, Some (pvalue, CorrectPValue ext pvalue (fNParameters s) nbins),
              s\<lparr>fRandom := drawn w\<rparr>))"
proof -
  define nbins where "nbins = GetNbinsX hist1"
  obtain histogram0 expectation logp_start where start:
    "fold (start_bin ext hist1 hist2 f) [0..<nbins]
       (replicate nbins 0, replicate nbins (Fin 0), Fin 0)
     = (histogram0, expectation, logp_start)"
    by (metis prod_cases3)
  define w0 where "w0 = \<lparr>histogram = histogram0, logp = logp_start, drawn = fRandom s\<rparr>"
  obtain w counter_pvalue where run:
    "(toy_iteration rnd hist1 expectation nbins logp_start ^^ nIterations) (w0, 0)
     = (w, counter_pvalue)"
    by (cases "(toy_iteration rnd hist1 expectation nbins logp_start ^^ nIterations) (w0, 0)")
  from toy_iterations_counter[of nIterations rnd hist1 expectation nbins logp_start "(w0, 0)"]
    run assms(4)
  have small: "\<not> 2147483647 < counter_pvalue" by simp
  show ?thesis
    unfolding CalculatePValueFast_def Let_def assms(1,2,3)
    by (simp add: start_loop_Some nbins_def[symmetric] start w0_def[symmetric] run small)
qed

text \<open>
  With no iteration the quotient is \<open>0 / 0\<close>, a NaN, which no guard replaces, and no
  random value is drawn.
\<close>

lemma CalculatePValueFast_no_iterations:
  assumes "fHistogram1 s = Some hist1" and "fHistogram2 s = Some hist2"
    and "fFitFunction s = Some f # fs"
  shows "CalculatePValueFast ext rnd s 0 =
           Inr (True, Some (NaN, CorrectPValue ext NaN (fNParameters s) (GetNbinsX hist1)), s)"
  unfolding CalculatePValueFast_function[OF assms, of 0, simplified]
  by (simp add: Let_def ddiv_zero_zero split: prod.splits)

section \<open>Where the source departs from its description\<close>

text \<open>
  C1. The test before the Metropolis step, \<open>!(yexp > 0. or yexp < 1.0)\<close>, is true for
  a NaN only, so a bin with \<open>p \<le> 0\<close> or \<open>p \<ge> 1\<close> is not skipped. Take the bin
  \<open>[0, 1]\<close> with 2 trials and 1 success. With the constant function 0 the expectation
  is 0 and \<open>p = 0\<close>; the step down gets the ratio \<open>0.5 / 0\<close>, an infinity, and is
  taken: the toy count goes from 1 to 0 and \<open>logp\<close> becomes infinite. With the
  constant function 1 the expectation is 2 and \<open>p = 1\<close>; the step up gets an infinite
  ratio in the same way and the toy count goes from 1 to 2.
\<close>

theorem toy_bin_at_limit:
  "start_loop ex_ext ex_unit_total ex_unit_passed [Some ex_zero] [0..<GetNbinsX ex_unit_total]
     (replicate (GetNbinsX ex_unit_total) 0, replicate (GetNbinsX ex_unit_total) (Fin 0), Fin 0)
     = Inr ([1], [Fin 0], Fin 0)
   \<and> ddiv ([Fin 0] ! 0) (double_of_int (int_of_double (GetBinContent ex_unit_total 0))) = Fin 0
   \<and> toy_bin ex_rnd ex_unit_total [Fin 0] 0 \<lparr>histogram = [1], logp = Fin 0, drawn = 1\<rparr>
       = \<lparr>histogram = [0], logp = PInf, drawn = 3\<rparr>
   \<and> start_loop ex_ext ex_unit_total ex_unit_passed [Some ex_one] [0..<GetNbinsX ex_unit_total]
     (replicate (GetNbinsX ex_unit_total) 0, replicate (GetNbinsX ex_unit_total) (Fin 0), Fin 0)
     = Inr ([1], [Fin 2], Fin 1)
   \<and> ddiv ([Fin 2] ! 0) (double_of_int (int_of_double (GetBinContent ex_unit_total 0))) = Fin 1
   \<and> toy_bin ex_rnd ex_unit_total [Fin 2] 0 \<lparr>histogram = [1], logp = Fin 1, drawn = 0\<rparr>
       = \<lparr>histogram = [2], logp = PInf, drawn = 2\<rparr>"
  by (simp add: ex_hist_defs ex_zero_def ex_one_def ex_quarter_def ex_ext_def ex_rnd_def th1d_defs
      start_bin_def
      toy_bin_def Integral_def double_of_int_def int_of_double_small dgreater_def dsub_def
      signed_inf_def Let_def)

text \<open>
  C2. The first loop reads the counts of toy bin \<open>ibin\<close> (from 0) with
  \<open>GetBinContent(ibin)\<close>, which is the bin before the one whose edges it takes; for the
  first toy bin this is the underflow bin. With 4 trials and 2 successes in bin 1 and
  empty underflow bins, the toy count starts at 0, not at 2, and the trials read are 0,
  not 4, so that no step is ever proposed for the bin.
\<close>

theorem start_loop_reads_underflow:
  "map bin_n (BinnedCounts ex_inner_total ex_inner_passed) = [4]
   \<and> map bin_k (BinnedCounts ex_inner_total ex_inner_passed) = [2]
   \<and> start_loop ex_ext ex_inner_total ex_inner_passed [Some ex_quarter]
        [0..<GetNbinsX ex_inner_total]
        (replicate (GetNbinsX ex_inner_total) 0, replicate (GetNbinsX ex_inner_total) (Fin 0),
         Fin 0)
       = Inr ([0], [Fin 0], Fin 0)
   \<and> int_of_double (GetBinContent ex_inner_total 0) = 0
   \<and> toy_bin ex_rnd ex_inner_total [Fin 0] 0 \<lparr>histogram = [0], logp = Fin 0, drawn = 0\<rparr>
       = \<lparr>histogram = [0], logp = Fin 0, drawn = 1\<rparr>"
  by (simp add: BinnedCounts_def ex_hist_defs ex_quarter_def ex_ext_def ex_rnd_def th1d_defs
      start_bin_def toy_bin_def Integral_def double_of_int_def int_of_double_small dgreater_def
      dsub_def Let_def)

text \<open>
  C3. The first loop takes the integral of the function over the bin as the efficiency,
  without dividing by the width of the bin. With the constant function \<open>1/4\<close> on the
  bin \<open>[0, 2]\<close>, 4 trials and 2 successes, the source has the expectation
  \<open>4 \<cdot> 1/2 = 2\<close> and gives the efficiency \<open>1/2\<close> to \<open>LogApproxBinomial\<close>; the
  average over the bin is \<open>1/4\<close> and the expected count is 1.
\<close>

theorem start_loop_uses_integral:
  "start_loop ex_ext ex_total ex_passed [Some ex_quarter] [0..<GetNbinsX ex_total]
     (replicate (GetNbinsX ex_total) 0, replicate (GetNbinsX ex_total) (Fin 0), Fin 0)
     = Inr ([2], [Fin 2], LogApproxBinomial ex_ext 4 2 (Fin (1 / 2)))
   \<and> spec_expectation ex_quarter (BinnedCounts ex_total ex_passed) = [Fin 1]
   \<and> spec_logp_start ex_ext ex_quarter (BinnedCounts ex_total ex_passed)
       = LogApproxBinomial ex_ext 4 2 (Fin (1 / 4))
   \<and> LogApproxBinomial ex_ext 4 2 (Fin (1 / 2)) \<noteq> LogApproxBinomial ex_ext 4 2 (Fin (1 / 4))"
  by (simp add: BinnedCounts_def spec_expectation_def spec_logp_start_def bin_average_def
      ex_hist_defs ex_quarter_def ex_ext_def th1d_defs start_bin_def
      Integral_def double_of_int_def int_of_double_small)

text \<open>
  C6. \<open>CalculatePValueFast\<close> does not test that the function is set, as \<open>Fit\<close>
  and \<open>DrawFit\<close> do with \<open>fFitFunction.empty()\<close>. With both histograms set and no
  function, the first loop reads \<open>fFitFunction[0]\<close> from an empty vector, which is
  undefined: the call neither reports failure nor succeeds.
\<close>

theorem CalculatePValueFast_no_function:
  "fHistogram1 ex_fitter_hists = Some ex_total \<and> fHistogram2 ex_fitter_hists = Some ex_passed
   \<and> fFitFunction ex_fitter_hists = []
   \<and> CalculatePValueFast ex_ext ex_rnd ex_fitter_hists 10 = Inl UndefinedBehaviour"
  by (simp add: ex_fitter_hists_fields CalculatePValueFast_def ex_hist_defs th1d_defs)

end
